theory Spec2Isabelle
  imports Main "HOL-Library.Word" "HOL-Library.Multiset"
begin

section \<open>StarFive camera subsystem, VIN module: the output buffer engine\<close>

text \<open>
  A shallow embedding of the per-line output engine of \<^verbatim>\<open>stf_vin.c\<close>: the
  pending and ready queues, the two hardware slots, the output state machine, the two
  interrupt handlers, the flush path and the stream/power reference counters.

  Effects are made explicit. Each line carries two traces, oldest entry first:
  \<^item> \<open>sink\<close>: the address writes that the buffer engine issues to the DMA registers
    for the line (\<^verbatim>\<open>stf_vin_wr_set_ping_addr\<close>, \<^verbatim>\<open>stf_vin_wr_set_pong_addr\<close>,
    \<^verbatim>\<open>stf_vin_isp_set_yuv_addr\<close>);
  \<^item> \<open>vb2_done\<close>: the calls of \<^verbatim>\<open>vb2_buffer_done\<close>, each with the descriptor as
    it is at the call and the state it is returned with.
  The spin lock and the mutexes serialise the functions; every function is modelled as
  one atomic step, and the \<^verbatim>\<open>int\<close> result, which is always 0, is left out.
\<close>

subsection \<open>Data\<close>

text \<open>
  Modelled from the spec: the headers that declare the structures and enumerations used
  by \<^verbatim>\<open>stf_vin.c\<close> (\<^verbatim>\<open>stf_camss.h\<close>, \<^verbatim>\<open>stf_vin.h\<close>, the videobuf2
  headers) are not among the sources. The records below have the fields that
  \<^verbatim>\<open>stf_vin.c\<close> reads and writes, under the names used there, and the enumerations
  have the constants it names; this is the data model of the spec: a descriptor with
  plane addresses, a sequence number and a timestamp; an output state out of six; an
  active slot index; two slots, a frozen last buffer, a pending and a ready queue.
\<close>

type_synonym dma_addr_t = "64 word"

text \<open>
  A capture buffer descriptor (\<^verbatim>\<open>struct stfcamss_buffer\<close>). \<open>ptr\<close> is the identity
  of the descriptor (its address in memory): the C code handles descriptors by pointer,
  and two descriptors are the same one exactly when their pointers are equal.
  \<open>vb_sequence\<close> and \<open>vb_timestamp\<close> are \<^verbatim>\<open>vb.sequence\<close> and
  \<^verbatim>\<open>vb.vb2_buf.timestamp\<close>. The intrusive list node \<^verbatim>\<open>queue\<close> is represented
  by membership in the lists below.
\<close>

record stfcamss_buffer =
  ptr :: nat
  addr :: "nat \<Rightarrow> dma_addr_t"
  vb_sequence :: "32 word"
  vb_timestamp :: "64 word"

datatype vb2_buffer_state =
    VB2_BUF_STATE_DEQUEUED
  | VB2_BUF_STATE_IN_REQUEST
  | VB2_BUF_STATE_PREPARING
  | VB2_BUF_STATE_QUEUED
  | VB2_BUF_STATE_ACTIVE
  | VB2_BUF_STATE_DONE
  | VB2_BUF_STATE_ERROR

datatype vin_output_state =
    VIN_OUTPUT_OFF
  | VIN_OUTPUT_RESERVED
  | VIN_OUTPUT_SINGLE
  | VIN_OUTPUT_CONTINUOUS
  | VIN_OUTPUT_IDLE
  | VIN_OUTPUT_STOPPING

text \<open>
  Modelled from the spec: \<^verbatim>\<open>enum vin_line_id\<close> is declared in a header that is not
  among the sources. The spec has one line per pipeline branch, the single-plane
  ping/pong branch and the dual-plane Y/UV branch. They are the lines that
  \<^verbatim>\<open>stf_vin_subdev_init\<close> creates, one per row of \<^verbatim>\<open>vin_formats_table\<close>,
  \<^verbatim>\<open>VIN_LINE_WR\<close> in row 0 and \<^verbatim>\<open>VIN_LINE_ISP\<close> in row 1. \<open>vin_line_num\<close> is
  the numeric value of a line (its row), and \<open>VIN_LINE_MAX\<close>, the bound of the
  enumeration, is the number of lines.
\<close>

datatype vin_line_id = VIN_LINE_WR | VIN_LINE_ISP

fun vin_line_num :: "vin_line_id \<Rightarrow> int" where
  "vin_line_num VIN_LINE_WR = 0"
| "vin_line_num VIN_LINE_ISP = 1"

definition VIN_LINE_MAX :: int where
  "VIN_LINE_MAX = 2"

datatype isp_line_id = STF_ISP_LINE_INVALID | STF_ISP_LINE_SRC

definition vin_map_isp_line :: "vin_line_id \<Rightarrow> isp_line_id" where
  "vin_map_isp_line line =
     (if vin_line_num line > vin_line_num VIN_LINE_WR \<and> vin_line_num line < VIN_LINE_MAX
      then STF_ISP_LINE_SRC
      else STF_ISP_LINE_INVALID)"

text \<open>One write to the DMA Address Sink.\<close>

datatype sink_write =
    WR_SET_PING_ADDR dma_addr_t
  | WR_SET_PONG_ADDR dma_addr_t
  | ISP_SET_YUV_ADDR dma_addr_t dma_addr_t

text \<open>
  \<^verbatim>\<open>struct vin_output\<close>. \<open>buf\<close> is the array \<^verbatim>\<open>buf[2]\<close>, read and written
  at the index the code computes; \<open>active_buf\<close> only ever receives 0 or a logical
  negation, so the index is 0 or 1 in every state the code produces.
\<close>

record vin_output =
  active_buf :: nat
  buf :: "nat \<Rightarrow> stfcamss_buffer option"
  last_buffer :: "stfcamss_buffer option"
  pending_bufs :: "stfcamss_buffer list"
  ready_bufs :: "stfcamss_buffer list"
  state :: vin_output_state
  sequence :: "32 word"

text \<open>
  \<^verbatim>\<open>struct vin_line\<close>, with the two effect traces of the line. \<open>line_id\<close> and
  \<open>line_output\<close> are the fields \<^verbatim>\<open>id\<close> and \<^verbatim>\<open>output\<close>. The two counters
  are C \<^verbatim>\<open>int\<close>s. The kernel is built with \<^verbatim>\<open>-fno-strict-overflow\<close>, so
  \<^verbatim>\<open>++\<close> and \<^verbatim>\<open>--\<close> wrap around: a counter is a 32-bit word, and \<open>sint\<close>
  reads it as the signed value.
\<close>

record vin_line =
  line_id :: vin_line_id
  line_output :: vin_output
  stream_count :: "32 word"
  power_count :: "32 word"
  sink :: "sink_write list"
  vb2_done :: "(stfcamss_buffer \<times> vb2_buffer_state) list"

text \<open>C's logical negation on an integer.\<close>

definition lnot :: "nat \<Rightarrow> nat" where
  "lnot n = (if n = 0 then 1 else 0)"

subsection \<open>Queues\<close>

definition vin_init_outputs :: "vin_line \<Rightarrow> vin_line" where
  "vin_init_outputs line =
     line\<lparr>line_output := (line_output line)\<lparr>
       state := VIN_OUTPUT_OFF,
       buf := ((buf (line_output line))(0 := None))(1 := None),
       active_buf := 0,
       pending_bufs := [],
       ready_bufs := []\<rparr>\<rparr>"

definition vin_buf_add_ready :: "vin_output \<Rightarrow> stfcamss_buffer \<Rightarrow> vin_output" where
  "vin_buf_add_ready out buffer = out\<lparr>ready_bufs := ready_bufs out @ [buffer]\<rparr>"

definition vin_buf_get_ready :: "vin_output \<Rightarrow> stfcamss_buffer option \<times> vin_output" where
  "vin_buf_get_ready out =
     (case ready_bufs out of
        [] \<Rightarrow> (None, out)
      | buffer # rest \<Rightarrow> (Some buffer, out\<lparr>ready_bufs := rest\<rparr>))"

definition vin_buf_add_pending :: "vin_output \<Rightarrow> stfcamss_buffer \<Rightarrow> vin_output" where
  "vin_buf_add_pending out buffer = out\<lparr>pending_bufs := pending_bufs out @ [buffer]\<rparr>"

definition vin_buf_get_pending :: "vin_output \<Rightarrow> stfcamss_buffer option \<times> vin_output" where
  "vin_buf_get_pending out =
     (case pending_bufs out of
        [] \<Rightarrow> (None, out)
      | buffer # rest \<Rightarrow> (Some buffer, out\<lparr>pending_bufs := rest\<rparr>))"

subsection \<open>Address installation and enable/disable\<close>

definition vin_output_init_addrs :: "vin_line \<Rightarrow> vin_line" where
  "vin_output_init_addrs line =
     (let line1 = line\<lparr>line_output := (line_output line)\<lparr>active_buf := 0\<rparr>\<rparr> in
      case buf (line_output line1) 0 of
        None \<Rightarrow> line1
      | Some b \<Rightarrow>
          (case vin_map_isp_line (line_id line1) of
             STF_ISP_LINE_SRC \<Rightarrow>
               line1\<lparr>sink := sink line1 @ [ISP_SET_YUV_ADDR (addr b 0) (addr b 1)]\<rparr>
           | STF_ISP_LINE_INVALID \<Rightarrow>
               if line_id line1 = VIN_LINE_WR
               then line1\<lparr>sink := sink line1 @
                      [WR_SET_PING_ADDR (addr b 0), WR_SET_PONG_ADDR (addr b 0)]\<rparr>
               else line1))"

definition vin_enable_output :: "vin_line \<Rightarrow> vin_line" where
  "vin_enable_output line =
     (let out0 = (line_output line)\<lparr>state := VIN_OUTPUT_IDLE\<rparr>;
          (b, out1) = vin_buf_get_pending out0;
          out2 = out1\<lparr>buf := (buf out1)(0 := b)\<rparr>;
          out3 = (if buf out2 0 = None \<and> buf out2 1 \<noteq> None
                  then out2\<lparr>buf := ((buf out2)(0 := buf out2 1))(1 := None)\<rparr>
                  else out2);
          out4 = (if buf out3 0 \<noteq> None then out3\<lparr>state := VIN_OUTPUT_SINGLE\<rparr> else out3);
          out5 = out4\<lparr>sequence := 0\<rparr>
      in vin_output_init_addrs (line\<lparr>line_output := out5\<rparr>))"

definition vin_disable_output :: "vin_line \<Rightarrow> vin_line" where
  "vin_disable_output line = line\<lparr>line_output := (line_output line)\<lparr>state := VIN_OUTPUT_OFF\<rparr>\<rparr>"

subsection \<open>State transitions\<close>

definition vin_buf_update_on_last :: "vin_line \<Rightarrow> vin_line" where
  "vin_buf_update_on_last line =
     (case state (line_output line) of
        VIN_OUTPUT_CONTINUOUS \<Rightarrow>
          line\<lparr>line_output := (line_output line)\<lparr>
            state := VIN_OUTPUT_SINGLE,
            active_buf := lnot (active_buf (line_output line))\<rparr>\<rparr>
      | VIN_OUTPUT_SINGLE \<Rightarrow>
          line\<lparr>line_output := (line_output line)\<lparr>state := VIN_OUTPUT_STOPPING\<rparr>\<rparr>
      | _ \<Rightarrow> line)"

definition vin_buf_update_on_next :: "vin_line \<Rightarrow> vin_line" where
  "vin_buf_update_on_next line =
     (case state (line_output line) of
        VIN_OUTPUT_CONTINUOUS \<Rightarrow>
          line\<lparr>line_output := (line_output line)\<lparr>active_buf := lnot (active_buf (line_output line))\<rparr>\<rparr>
      | _ \<Rightarrow> line)"

definition vin_buf_update_on_new :: "vin_line \<Rightarrow> stfcamss_buffer \<Rightarrow> vin_line" where
  "vin_buf_update_on_new line new_buf =
     (case state (line_output line) of
        VIN_OUTPUT_SINGLE \<Rightarrow>
          line\<lparr>line_output := vin_buf_add_pending (line_output line) new_buf\<rparr>
      | VIN_OUTPUT_IDLE \<Rightarrow>
          if buf (line_output line) 0 = None
          then (let line1 = line\<lparr>line_output := (line_output line)\<lparr>
                                buf := (buf (line_output line))(0 := Some new_buf)\<rparr>\<rparr>;
                    line2 = vin_output_init_addrs line1
                in line2\<lparr>line_output := (line_output line2)\<lparr>state := VIN_OUTPUT_SINGLE\<rparr>\<rparr>)
          else line\<lparr>line_output := vin_buf_add_pending (line_output line) new_buf\<rparr>
      | VIN_OUTPUT_STOPPING \<Rightarrow>
          (let out1 = (case last_buffer (line_output line) of
                         Some lb \<Rightarrow> (line_output line)\<lparr>
                           buf := (buf (line_output line))(active_buf (line_output line) := Some lb),
                           last_buffer := None\<rparr>
                       | None \<Rightarrow> line_output line);
               out2 = out1\<lparr>state := VIN_OUTPUT_SINGLE\<rparr>
           in line\<lparr>line_output := vin_buf_add_pending out2 new_buf\<rparr>)
      | _ \<Rightarrow> line\<lparr>line_output := vin_buf_add_pending (line_output line) new_buf\<rparr>)"

definition vin_queue_buffer :: "vin_line \<Rightarrow> stfcamss_buffer \<Rightarrow> vin_line" where
  "vin_queue_buffer line b = vin_buf_update_on_new line b"

subsection \<open>Flush\<close>

text \<open>
  One \<^verbatim>\<open>list_for_each_entry_safe\<close> loop of \<^verbatim>\<open>vin_buf_flush\<close>: every entry
  is handed to \<^verbatim>\<open>vb2_buffer_done\<close> with the given state and unlinked, front to back.
\<close>

fun flush_list ::
  "stfcamss_buffer list \<Rightarrow> vb2_buffer_state \<Rightarrow>
   (stfcamss_buffer \<times> vb2_buffer_state) list \<Rightarrow> (stfcamss_buffer \<times> vb2_buffer_state) list"
where
  "flush_list [] st trace = trace"
| "flush_list (b # rest) st trace = flush_list rest st (trace @ [(b, st)])"

definition vin_buf_flush :: "vin_line \<Rightarrow> vb2_buffer_state \<Rightarrow> vin_line" where
  "vin_buf_flush line st =
     (let line1 = line\<lparr>
            vb2_done := flush_list (pending_bufs (line_output line)) st (vb2_done line),
            line_output := (line_output line)\<lparr>pending_bufs := []\<rparr>\<rparr>
      in line1\<lparr>
            vb2_done := flush_list (ready_bufs (line_output line1)) st (vb2_done line1),
            line_output := (line_output line1)\<lparr>ready_bufs := []\<rparr>\<rparr>)"

definition vin_flush_buffers :: "vin_line \<Rightarrow> vb2_buffer_state \<Rightarrow> vin_line" where
  "vin_flush_buffers line st =
     (let line1 = vin_buf_flush line st;
          line2 = (case buf (line_output line1) 0 of
                     Some b \<Rightarrow> line1\<lparr>vb2_done := vb2_done line1 @ [(b, st)]\<rparr>
                   | None \<Rightarrow> line1);
          line3 = (case buf (line_output line2) 1 of
                     Some b \<Rightarrow> line2\<lparr>vb2_done := vb2_done line2 @ [(b, st)]\<rparr>
                   | None \<Rightarrow> line2);
          line4 = (case last_buffer (line_output line3) of
                     Some b \<Rightarrow> line3\<lparr>vb2_done := vb2_done line3 @ [(b, st)],
                                     line_output := (line_output line3)\<lparr>last_buffer := None\<rparr>\<rparr>
                   | None \<Rightarrow> line3)
      in line4\<lparr>line_output := (line_output line4)\<lparr>
                  buf := ((buf (line_output line4))(0 := None))(1 := None)\<rparr>\<rparr>)"

subsection \<open>Interrupt handlers\<close>

text \<open>
  The drain loop of \<^verbatim>\<open>vin_buffer_done\<close>:
  \<^verbatim>\<open>while ((ready_buf = vin_buf_get_ready(output)))\<close>. \<open>ts\<close> is the value that
  \<^verbatim>\<open>ktime_get_ns()\<close> returned at the entry of the handler.
\<close>

function vin_buffer_done_loop :: "64 word \<Rightarrow> vin_line \<Rightarrow> vin_line" where
  "vin_buffer_done_loop ts line =
     (case vin_buf_get_ready (line_output line) of
        (None, out1) \<Rightarrow> line\<lparr>line_output := out1\<rparr>
      | (Some ready_buf, out1) \<Rightarrow>
          vin_buffer_done_loop ts
            (line\<lparr>line_output := out1\<lparr>sequence := sequence out1 + 1\<rparr>,
                  vb2_done := vb2_done line @
                    [(ready_buf\<lparr>vb_timestamp := ts, vb_sequence := sequence out1\<rparr>,
                      VB2_BUF_STATE_DONE)]\<rparr>))"
  by pat_completeness auto
termination
  by (relation "measure (\<lambda>(ts, line). length (ready_bufs (line_output line)))")
     (auto simp: vin_buf_get_ready_def split: list.splits)

definition vin_buffer_done :: "64 word \<Rightarrow> vin_line \<Rightarrow> vin_line" where
  "vin_buffer_done ts line =
     (if state (line_output line) = VIN_OUTPUT_OFF \<or>
         state (line_output line) = VIN_OUTPUT_RESERVED
      then line
      else vin_buffer_done_loop ts line)"

text \<open>
  \<^verbatim>\<open>vin_change_buffer\<close> from the comment \<^verbatim>\<open>/* Get next buffer */\<close> to its end,
  with the slot index and the buffer that the first part of the function selected.
\<close>

definition vin_change_buffer_next ::
  "vin_line \<Rightarrow> nat \<Rightarrow> stfcamss_buffer \<Rightarrow> vin_line" where
  "vin_change_buffer_next line active_index ready_buf =
     (let (nb, out1) = vin_buf_get_pending (line_output line);
          line1 = line\<lparr>line_output := out1\<lparr>buf := (buf out1)(active_index := nb)\<rparr>\<rparr>;
          (new_addr, line2) =
            (case buf (line_output line1) active_index of
               None \<Rightarrow> (addr ready_buf, vin_buf_update_on_last line1)
             | Some n \<Rightarrow> (addr n, vin_buf_update_on_next line1))
      in if state (line_output line2) = VIN_OUTPUT_STOPPING
         then line2\<lparr>line_output := (line_output line2)\<lparr>last_buffer := Some ready_buf\<rparr>\<rparr>
         else
           (let line3 =
                  (case vin_map_isp_line (line_id line2) of
                     STF_ISP_LINE_SRC \<Rightarrow>
                       line2\<lparr>sink := sink line2 @ [ISP_SET_YUV_ADDR (new_addr 0) (new_addr 1)]\<rparr>
                   | STF_ISP_LINE_INVALID \<Rightarrow>
                       if line_id line2 = VIN_LINE_WR
                       then line2\<lparr>sink := sink line2 @
                              [WR_SET_PING_ADDR (new_addr 0), WR_SET_PONG_ADDR (new_addr 0)]\<rparr>
                       else line2)
            in line3\<lparr>line_output := vin_buf_add_ready (line_output line3) ready_buf\<rparr>))"

text \<open>
  The two diagnostics (\<^verbatim>\<open>dev_warn\<close>, \<^verbatim>\<open>dev_err\<close>) of the underflow path write
  to the kernel log only and are not part of the line's state.
\<close>

definition vin_change_buffer :: "vin_line \<Rightarrow> vin_line" where
  "vin_change_buffer line =
     (if state (line_output line) = VIN_OUTPUT_OFF \<or>
         state (line_output line) = VIN_OUTPUT_STOPPING \<or>
         state (line_output line) = VIN_OUTPUT_RESERVED \<or>
         state (line_output line) = VIN_OUTPUT_IDLE
      then line
      else
        (let active_index = active_buf (line_output line) in
         case buf (line_output line) active_index of
           Some ready_buf \<Rightarrow> vin_change_buffer_next line active_index ready_buf
         | None \<Rightarrow>
             (let active_index = lnot active_index in
              case buf (line_output line) active_index of
                Some ready_buf \<Rightarrow> vin_change_buffer_next line active_index ready_buf
              | None \<Rightarrow> line)))"

subsection \<open>Stream and power reference counters\<close>

text \<open>
  \<^verbatim>\<open>vin_set_power\<close> and \<^verbatim>\<open>vin_set_stream\<close> work on the device
  (\<^verbatim>\<open>struct stf_vin_dev\<close>): its lines, the device power count and one dummy-buffer
  record per module. Calls that leave the file are recorded, in order, in \<open>events\<close>:
  runtime power management, clocks, the stream and interrupt switches, the three
  dummy-buffer operations (with the arguments of the call; the scratch memory itself is
  outside this model) and the \<^verbatim>\<open>dev_err\<close> diagnostics. \<^verbatim>\<open>vin_get_link\<close> walks
  the media graph; its result is the argument \<open>lk\<close>.
\<close>

datatype link =
  LINK_ERROR | LINK_DVP_TO_WR | LINK_DVP_TO_ISP | LINK_CSI_TO_WR | LINK_CSI_TO_ISP

datatype dummy_module = STF_DUMMY_VIN | STF_DUMMY_ISP

text \<open>
  Modelled from the spec: the pad constants are declared in headers that are not among
  the sources, and the spec leaves pads to the format negotiation. A pad is kept as the
  constant the code names; \<open>ISP_PAD_OF_LINE\<close> is the cast
  \<^verbatim>\<open>(enum isp_pad_id)vin_map_isp_line(line)\<close>.
\<close>

datatype pad_id =
  STF_VIN_PAD_SINK | STF_ISP_PAD_SINK | STF_ISP_PAD_SRC | ISP_PAD_OF_LINE isp_line_id

datatype dev_event =
    PM_RUNTIME_GET_SYNC
  | PM_RUNTIME_PUT_SYNC
  | VIN_CLK_ENABLE link
  | VIN_CLK_DISABLE link
  | VIN_STREAM_SET link
  | VIN_WR_IRQ_ENABLE bool
  | VIN_WR_STREAM_SET
  | VIN_ALLOC_DUMMY_BUFFER dummy_module
  | VIN_FREE_DUMMY_BUFFER dummy_module
  | VIN_SET_DUMMY_BUFFER vin_line_id pad_id
  | DEV_ERR string

record dummy_buffer =
  dummy_stream_count :: "32 word"
  frame_skip :: "32 word"

record stf_vin_dev =
  vin_lines :: "vin_line_id \<Rightarrow> vin_line"
  dev_power_count :: "32 word"
  dummy_buffers :: "dummy_module \<Rightarrow> dummy_buffer"
  events :: "dev_event list"

definition VIN_FRAME_DROP_MIN_VAL :: "32 word" where
  "VIN_FRAME_DROP_MIN_VAL = 4"

definition stf_vin_map_isp_pad :: "vin_line_id \<Rightarrow> pad_id \<Rightarrow> pad_id" where
  "stf_vin_map_isp_pad line def =
     (if line = VIN_LINE_WR then STF_ISP_PAD_SINK
      else if vin_line_num line > vin_line_num VIN_LINE_WR \<and> vin_line_num line < VIN_LINE_MAX
      then ISP_PAD_OF_LINE (vin_map_isp_line line)
      else def)"

definition vin_line_to_dummy_module :: "vin_line_id \<Rightarrow> dummy_module" where
  "vin_line_to_dummy_module lid =
     (case lid of VIN_LINE_WR \<Rightarrow> STF_DUMMY_VIN | VIN_LINE_ISP \<Rightarrow> STF_DUMMY_ISP)"

definition vin_set_power :: "link \<Rightarrow> vin_line_id \<Rightarrow> bool \<Rightarrow> stf_vin_dev \<Rightarrow> stf_vin_dev" where
  "vin_set_power lk lid on dev =
     (let line = vin_lines dev lid;
          dev1 =
            (if on
             then (let line1 = (if power_count line = 0 then vin_init_outputs line else line)
                   in dev\<lparr>vin_lines := (vin_lines dev)
                            (lid := line1\<lparr>power_count := power_count line1 + 1\<rparr>)\<rparr>)
             else if power_count line = 0
             then dev\<lparr>events := events dev @ [DEV_ERR ''line power off on power_count = 0'']\<rparr>
             else dev\<lparr>vin_lines := (vin_lines dev)
                        (lid := line\<lparr>power_count := power_count line - 1\<rparr>)\<rparr>)
      in if lk = LINK_ERROR then dev1
         else if on
         then (let dev2 = (if dev_power_count dev1 = 0
                           then dev1\<lparr>events := events dev1 @
                                  [PM_RUNTIME_GET_SYNC, VIN_CLK_ENABLE lk]\<rparr>
                           else dev1)
               in dev2\<lparr>dev_power_count := dev_power_count dev2 + 1\<rparr>)
         else if dev_power_count dev1 = 0
         then dev1\<lparr>events := events dev1 @ [DEV_ERR ''vin_dev power off on power_count=0'']\<rparr>
         else (let dev2 = (if dev_power_count dev1 = 1
                           then dev1\<lparr>events := events dev1 @
                                  [VIN_CLK_DISABLE lk, PM_RUNTIME_PUT_SYNC]\<rparr>
                           else dev1)
               in dev2\<lparr>dev_power_count := dev_power_count dev2 - 1\<rparr>))"

definition vin_set_stream :: "link \<Rightarrow> vin_line_id \<Rightarrow> bool \<Rightarrow> stf_vin_dev \<Rightarrow> stf_vin_dev" where
  "vin_set_stream lk lid enable dev =
     (let dummy_module = vin_line_to_dummy_module lid;
          db = dummy_buffers dev dummy_module;
          dev1 =
            (if enable
             then (let (db1, ev) =
                         (if dummy_stream_count db = 0
                          then (db\<lparr>frame_skip := VIN_FRAME_DROP_MIN_VAL + 30\<rparr>,
                                [VIN_ALLOC_DUMMY_BUFFER dummy_module,
                                 VIN_SET_DUMMY_BUFFER lid STF_VIN_PAD_SINK])
                          else (db, []))
                   in dev\<lparr>dummy_buffers := (dummy_buffers dev)
                            (dummy_module := db1\<lparr>dummy_stream_count := dummy_stream_count db1 + 1\<rparr>),
                          events := events dev @ ev\<rparr>)
             else (let ev =
                         (if dummy_stream_count db = 1
                          then [VIN_FREE_DUMMY_BUFFER dummy_module,
                                VIN_SET_DUMMY_BUFFER lid STF_VIN_PAD_SINK]
                          else [VIN_SET_DUMMY_BUFFER lid
                                  (stf_vin_map_isp_pad lid STF_ISP_PAD_SINK)])
                   in dev\<lparr>dummy_buffers := (dummy_buffers dev)
                            (dummy_module := db\<lparr>dummy_stream_count := dummy_stream_count db - 1\<rparr>),
                          events := events dev @ ev\<rparr>));
          line = vin_lines dev1 lid;
          dev2 =
            (if lk = LINK_ERROR then dev1
             else if enable
             then (let ev =
                         (if stream_count line = 0
                          then [VIN_STREAM_SET lk] @
                               (if lid = VIN_LINE_WR
                                then [VIN_WR_IRQ_ENABLE True, VIN_WR_STREAM_SET] else [])
                          else [])
                   in dev1\<lparr>vin_lines := (vin_lines dev1)
                             (lid := line\<lparr>stream_count := stream_count line + 1\<rparr>),
                           events := events dev1 @ ev\<rparr>)
             else (let ev =
                         (if stream_count line = 1 \<and> lid = VIN_LINE_WR
                          then [VIN_WR_IRQ_ENABLE False] else [])
                   in dev1\<lparr>vin_lines := (vin_lines dev1)
                             (lid := line\<lparr>stream_count := stream_count line - 1\<rparr>),
                           events := events dev1 @ ev\<rparr>));
          line2 = vin_lines dev2 lid
      in dev2\<lparr>vin_lines := (vin_lines dev2)
                (lid := (if enable then vin_enable_output line2
                         else vin_disable_output line2))\<rparr>)"

section \<open>Vocabulary of the statements\<close>

text \<open>
  The writes that install the addresses of one buffer into the sink of a line: ping and
  pong for the write line, the Y/UV pair for the ISP line.
\<close>

definition sink_writes_for :: "vin_line_id \<Rightarrow> stfcamss_buffer \<Rightarrow> sink_write list" where
  "sink_writes_for lid b =
     (case lid of
        VIN_LINE_WR \<Rightarrow> [WR_SET_PING_ADDR (addr b 0), WR_SET_PONG_ADDR (addr b 0)]
      | VIN_LINE_ISP \<Rightarrow> [ISP_SET_YUV_ADDR (addr b 0) (addr b 1)])"

text \<open>
  The descriptors a line's output holds, in the order in which the flush returns them:
  the pending queue, the ready queue, slot 0, slot 1 and the frozen last buffer.
\<close>

definition slot_list :: "stfcamss_buffer option \<Rightarrow> stfcamss_buffer list" where
  "slot_list s = (case s of None \<Rightarrow> [] | Some b \<Rightarrow> [b])"

definition outstanding :: "vin_output \<Rightarrow> stfcamss_buffer list" where
  "outstanding out =
     pending_bufs out @ ready_bufs out @ slot_list (buf out 0) @ slot_list (buf out 1) @
     slot_list (last_buffer out)"

text \<open>
  The \<open>i\<close>-th call of \<^verbatim>\<open>vb2_buffer_done\<close> of one run of the completion handler
  that starts with the counter at \<open>seq\<close> and the ready queue \<open>bs\<close>.
\<close>

definition done_stamped ::
  "64 word \<Rightarrow> 32 word \<Rightarrow> stfcamss_buffer list \<Rightarrow> nat \<Rightarrow> stfcamss_buffer \<times> vb2_buffer_state" where
  "done_stamped ts seq bs i =
     ((bs ! i)\<lparr>vb_timestamp := ts, vb_sequence := seq + of_nat i\<rparr>, VB2_BUF_STATE_DONE)"

subsection \<open>Runs of the engine\<close>

text \<open>
  The six operations of the engine as events, and the line after a sequence of them.
\<close>

datatype engine_op =
    ENABLE
  | DISABLE
  | QUEUE_BUFFER stfcamss_buffer
  | BUFFER_DONE "64 word"
  | BUFFER_CHANGED
  | FLUSH_BUFFERS vb2_buffer_state

fun engine_step :: "vin_line \<Rightarrow> engine_op \<Rightarrow> vin_line" where
  "engine_step line ENABLE = vin_enable_output line"
| "engine_step line DISABLE = vin_disable_output line"
| "engine_step line (QUEUE_BUFFER b) = vin_queue_buffer line b"
| "engine_step line (BUFFER_DONE ts) = vin_buffer_done ts line"
| "engine_step line BUFFER_CHANGED = vin_change_buffer line"
| "engine_step line (FLUSH_BUFFERS st) = vin_flush_buffers line st"

fun engine_run :: "vin_line \<Rightarrow> engine_op list \<Rightarrow> vin_line" where
  "engine_run line [] = line"
| "engine_run line (e # es) = engine_run (engine_step line e) es"

text \<open>Only slot 0 is in use.\<close>

definition single_slot :: "vin_output \<Rightarrow> bool" where
  "single_slot out = (state out \<noteq> VIN_OUTPUT_CONTINUOUS \<and> active_buf out = 0 \<and> buf out 1 = None)"







subsection \<open>Concrete values\<close>

text \<open>Descriptors and line states on which the theorems below are exercised.\<close>

definition sample_buf :: "nat \<Rightarrow> stfcamss_buffer" where
  "sample_buf n = \<lparr>ptr = n, addr = (\<lambda>i. of_nat (4096 * n + 1024 * i)), vb_sequence = 0, vb_timestamp = 0\<rparr>"

definition sample_output ::
  "vin_output_state \<Rightarrow> stfcamss_buffer option \<Rightarrow> stfcamss_buffer option \<Rightarrow>
   stfcamss_buffer list \<Rightarrow> stfcamss_buffer list \<Rightarrow> vin_output" where
  "sample_output st b0 b1 pend rdy =
     \<lparr>active_buf = 0, buf = ((\<lambda>_. None)(0 := b0))(1 := b1), last_buffer = None,
      pending_bufs = pend, ready_bufs = rdy, state = st, sequence = 7\<rparr>"

definition sample_line :: "vin_line_id \<Rightarrow> vin_output \<Rightarrow> vin_line" where
  "sample_line lid out =
     \<lparr>line_id = lid, line_output = out, stream_count = 0, power_count = 0,
      sink = [], vb2_done = []\<rparr>"

definition sample_dev :: stf_vin_dev where
  "sample_dev =
     \<lparr>vin_lines = (\<lambda>lid. sample_line lid (sample_output VIN_OUTPUT_OFF None None [] [])),
      dev_power_count = 0,
      dummy_buffers = (\<lambda>m. \<lparr>dummy_stream_count = 0, frame_skip = 0\<rparr>),
      events = []\<rparr>"

section \<open>Properties\<close>

declare vin_buffer_done_loop.simps [simp del]

subsection \<open>Auxiliary facts\<close>

lemma lnot_neq [simp]: "lnot n \<noteq> n" "n \<noteq> lnot n"
  by (simp_all add: lnot_def)

lemma vin_map_isp_line_simps [simp]:
  "vin_map_isp_line VIN_LINE_WR = STF_ISP_LINE_INVALID"
  "vin_map_isp_line VIN_LINE_ISP = STF_ISP_LINE_SRC"
  by (simp_all add: vin_map_isp_line_def VIN_LINE_MAX_def)

lemma flush_list_eq: "flush_list bs st trace = trace @ map (\<lambda>b. (b, st)) bs"
  by (induction bs arbitrary: trace) simp_all

lemma flush_buffers_eq:
  "vin_flush_buffers line st =
     line\<lparr>line_output := (line_output line)\<lparr>
            pending_bufs := [],
            ready_bufs := [],
            buf := ((buf (line_output line))(0 := None))(1 := None),
            last_buffer := None\<rparr>,
          vb2_done := vb2_done line @ map (\<lambda>b. (b, st)) (outstanding (line_output line))\<rparr>"
  by (auto simp: vin_flush_buffers_def vin_buf_flush_def flush_list_eq outstanding_def
        slot_list_def Let_def split: option.splits
        intro!: vin_line.equality vin_output.equality)

text \<open>
  The second half of the rotation handler in closed form, by state and by whether a
  pending buffer exists.
\<close>

lemma change_buffer_next_empty_single:
  assumes "pending_bufs (line_output line) = []" "state (line_output line) = VIN_OUTPUT_SINGLE"
  shows "vin_change_buffer_next line i r =
         line\<lparr>line_output := (line_output line)\<lparr>
           buf := (buf (line_output line))(i := None),
           state := VIN_OUTPUT_STOPPING,
           last_buffer := Some r\<rparr>\<rparr>"
  using assms
  by (simp add: vin_change_buffer_next_def vin_buf_get_pending_def vin_buf_update_on_last_def)

lemma change_buffer_next_empty_continuous:
  assumes "pending_bufs (line_output line) = []" "state (line_output line) = VIN_OUTPUT_CONTINUOUS"
  shows "vin_change_buffer_next line i r =
         line\<lparr>line_output := (line_output line)\<lparr>
           buf := (buf (line_output line))(i := None),
           state := VIN_OUTPUT_SINGLE,
           active_buf := lnot (active_buf (line_output line)),
           ready_bufs := ready_bufs (line_output line) @ [r]\<rparr>,
           sink := sink line @ sink_writes_for (line_id line) r\<rparr>"
  using assms
  by (cases "line_id line")
     (simp_all add: vin_change_buffer_next_def vin_buf_get_pending_def vin_buf_update_on_last_def
        vin_buf_add_ready_def sink_writes_for_def)

lemma change_buffer_next_pending_single:
  assumes "pending_bufs (line_output line) = p # ps" "state (line_output line) = VIN_OUTPUT_SINGLE"
  shows "vin_change_buffer_next line i r =
         line\<lparr>line_output := (line_output line)\<lparr>
           pending_bufs := ps,
           buf := (buf (line_output line))(i := Some p),
           ready_bufs := ready_bufs (line_output line) @ [r]\<rparr>,
           sink := sink line @ sink_writes_for (line_id line) p\<rparr>"
  using assms
  by (cases "line_id line")
     (simp_all add: vin_change_buffer_next_def vin_buf_get_pending_def vin_buf_update_on_next_def
        vin_buf_add_ready_def sink_writes_for_def)

lemma change_buffer_next_pending_continuous:
  assumes "pending_bufs (line_output line) = p # ps" "state (line_output line) = VIN_OUTPUT_CONTINUOUS"
  shows "vin_change_buffer_next line i r =
         line\<lparr>line_output := (line_output line)\<lparr>
           pending_bufs := ps,
           buf := (buf (line_output line))(i := Some p),
           active_buf := lnot (active_buf (line_output line)),
           ready_bufs := ready_bufs (line_output line) @ [r]\<rparr>,
           sink := sink line @ sink_writes_for (line_id line) p\<rparr>"
  using assms
  by (cases "line_id line")
     (simp_all add: vin_change_buffer_next_def vin_buf_get_pending_def vin_buf_update_on_next_def
        vin_buf_add_ready_def sink_writes_for_def)

lemma change_buffer_active:
  assumes "state (line_output line) = VIN_OUTPUT_SINGLE \<or> state (line_output line) = VIN_OUTPUT_CONTINUOUS"
    and "buf (line_output line) (active_buf (line_output line)) = Some r"
  shows "vin_change_buffer line = vin_change_buffer_next line (active_buf (line_output line)) r"
  using assms by (auto simp: vin_change_buffer_def)

lemma change_buffer_failover:
  assumes "state (line_output line) = VIN_OUTPUT_SINGLE \<or> state (line_output line) = VIN_OUTPUT_CONTINUOUS"
    and "buf (line_output line) (active_buf (line_output line)) = None"
    and "buf (line_output line) (lnot (active_buf (line_output line))) = Some r"
  shows "vin_change_buffer line = vin_change_buffer_next line (lnot (active_buf (line_output line))) r"
  using assms by (auto simp: vin_change_buffer_def)

text \<open>The drain loop of the completion handler in closed form.\<close>

lemma done_stamped_Cons:
  "map (done_stamped ts seq (b # bs)) [0..<Suc (length bs)] =
   (b\<lparr>vb_timestamp := ts, vb_sequence := seq\<rparr>, VB2_BUF_STATE_DONE) #
   map (done_stamped ts (seq + 1) bs) [0..<length bs]"
proof -
  have "map (done_stamped ts seq (b # bs)) [0..<Suc (length bs)] =
        done_stamped ts seq (b # bs) 0 #
        map (\<lambda>i. done_stamped ts seq (b # bs) (Suc i)) [0..<length bs]"
    by (simp add: map_upt_Suc del: upt_Suc)
  moreover have "done_stamped ts seq (b # bs) (Suc i) = done_stamped ts (seq + 1) bs i" for i
    by (simp add: done_stamped_def add.assoc add.commute)
  ultimately show ?thesis
    by (simp add: done_stamped_def del: upt_Suc)
qed

lemma buffer_done_loop_eq:
  "vin_buffer_done_loop ts line =
     line\<lparr>line_output := (line_output line)\<lparr>
            ready_bufs := [],
            sequence := sequence (line_output line) +
                        of_nat (length (ready_bufs (line_output line)))\<rparr>,
          vb2_done := vb2_done line @
            map (done_stamped ts (sequence (line_output line)) (ready_bufs (line_output line)))
                [0..<length (ready_bufs (line_output line))]\<rparr>"
proof (induction "ready_bufs (line_output line)" arbitrary: line)
  case Nil
  have "(line_output line)\<lparr>ready_bufs := []\<rparr> = line_output line"
    using Nil by (intro vin_output.equality) simp_all
  then show ?case
    using Nil [symmetric]
    by (subst vin_buffer_done_loop.simps)
       (auto simp: vin_buf_get_ready_def intro!: vin_line.equality vin_output.equality)
next
  case (Cons b bs)
  let ?out1 = "(line_output line)\<lparr>ready_bufs := bs\<rparr>"
  let ?line1 = "line\<lparr>line_output := ?out1\<lparr>sequence := sequence ?out1 + 1\<rparr>,
                     vb2_done := vb2_done line @
                       [(b\<lparr>vb_timestamp := ts, vb_sequence := sequence ?out1\<rparr>,
                         VB2_BUF_STATE_DONE)]\<rparr>"
  have rb: "ready_bufs (line_output line) = b # bs"
    using Cons.hyps(2) by simp
  have step: "vin_buffer_done_loop ts line = vin_buffer_done_loop ts ?line1"
    by (subst vin_buffer_done_loop.simps) (simp add: vin_buf_get_ready_def rb)
  have "bs = ready_bufs (line_output ?line1)" by simp
  from Cons.hyps(1) [OF this]
  have ih: "vin_buffer_done_loop ts ?line1 =
     ?line1\<lparr>line_output := (line_output ?line1)\<lparr>
            ready_bufs := [],
            sequence := sequence (line_output ?line1) + of_nat (length bs)\<rparr>,
          vb2_done := vb2_done ?line1 @
            map (done_stamped ts (sequence (line_output ?line1)) bs) [0..<length bs]\<rparr>"
    by simp
  show ?case
    unfolding step ih
    by (simp add: rb done_stamped_Cons add.assoc add.commute del: upt_Suc)
qed

subsection \<open>Flush\<close>

text \<open>
  C1 (as amended). From every state of a line's output, \<open>vin_flush_buffers\<close> hands
  every outstanding descriptor to \<^verbatim>\<open>vb2_buffer_done\<close> with the given state, one call
  per place that holds a descriptor and in the order pending queue, ready queue, slot 0,
  slot 1, last buffer; it empties both queues and clears both slots and the last buffer,
  so that nothing is outstanding afterwards. It does not write the output state: the
  state after the flush is the state before it.
\<close>

theorem flush_buffers_returns_all:
  "vin_flush_buffers line st =
     line\<lparr>line_output := (line_output line)\<lparr>
            pending_bufs := [],
            ready_bufs := [],
            buf := ((buf (line_output line))(0 := None))(1 := None),
            last_buffer := None\<rparr>,
          vb2_done := vb2_done line @ map (\<lambda>b. (b, st)) (outstanding (line_output line))\<rparr> \<and>
   outstanding (line_output (vin_flush_buffers line st)) = [] \<and>
   state (line_output (vin_flush_buffers line st)) = state (line_output line)"
proof -
  have "outstanding (line_output (vin_flush_buffers line st)) = []"
    by (simp add: flush_buffers_eq outstanding_def slot_list_def)
  moreover have "state (line_output (vin_flush_buffers line st)) = state (line_output line)"
    by (simp add: flush_buffers_eq)
  ultimately show ?thesis
    using flush_buffers_eq [of line st] by simp
qed

text \<open>
  The claim as written asks for the state \<open>OFF\<close> after the flush. A line flushed in
  state \<open>SINGLE\<close> is still in state \<open>SINGLE\<close>.
\<close>

theorem flush_buffers_state_counterexample:
  "state (line_output (vin_flush_buffers
     (sample_line VIN_LINE_WR (sample_output VIN_OUTPUT_SINGLE (Some (sample_buf 1)) None [] []))
     VB2_BUF_STATE_ERROR)) \<noteq> VIN_OUTPUT_OFF"
  by (simp add: vin_flush_buffers_def vin_buf_flush_def sample_line_def sample_output_def Let_def)

subsection \<open>Rotation handler\<close>

text \<open>
  C2. In state \<open>SINGLE\<close> or \<open>CONTINUOUS\<close> with a buffer \<open>r\<close> in the active slot:
  with an empty pending queue the handler empties the slot and applies the
  on-last-buffer transition; from \<open>SINGLE\<close> the state becomes \<open>STOPPING\<close>, nothing is
  written to the sink and \<open>r\<close> becomes the last buffer, neither queued as ready nor
  returned; from \<open>CONTINUOUS\<close> the state becomes \<open>SINGLE\<close> with the active index
  toggled. With a pending buffer \<open>p\<close> the handler moves \<open>p\<close> into the active slot,
  writes the addresses of \<open>p\<close> to the sink, toggles the active index in \<open>CONTINUOUS\<close>
  and leaves it in \<open>SINGLE\<close>, and appends \<open>r\<close> to the ready queue.
\<close>

theorem change_buffer_rotation:
  assumes "state (line_output line) = VIN_OUTPUT_SINGLE \<or>
           state (line_output line) = VIN_OUTPUT_CONTINUOUS"
    and "buf (line_output line) (active_buf (line_output line)) = Some r"
  shows "vin_change_buffer line =
     (case pending_bufs (line_output line) of
        [] \<Rightarrow>
          if state (line_output line) = VIN_OUTPUT_CONTINUOUS
          then line\<lparr>line_output := (line_output line)\<lparr>
                 buf := (buf (line_output line))(active_buf (line_output line) := None),
                 state := VIN_OUTPUT_SINGLE,
                 active_buf := lnot (active_buf (line_output line)),
                 ready_bufs := ready_bufs (line_output line) @ [r]\<rparr>,
                 sink := sink line @ sink_writes_for (line_id line) r\<rparr>
          else line\<lparr>line_output := (line_output line)\<lparr>
                 buf := (buf (line_output line))(active_buf (line_output line) := None),
                 state := VIN_OUTPUT_STOPPING,
                 last_buffer := Some r\<rparr>\<rparr>
      | p # ps \<Rightarrow>
          line\<lparr>line_output := (line_output line)\<lparr>
            pending_bufs := ps,
            buf := (buf (line_output line))(active_buf (line_output line) := Some p),
            active_buf := (if state (line_output line) = VIN_OUTPUT_CONTINUOUS
                           then lnot (active_buf (line_output line))
                           else active_buf (line_output line)),
            ready_bufs := ready_bufs (line_output line) @ [r]\<rparr>,
            sink := sink line @ sink_writes_for (line_id line) p\<rparr>)"
proof (cases "pending_bufs (line_output line)")
  case Nil
  then show ?thesis
    using assms
    by (auto simp: change_buffer_active change_buffer_next_empty_single
          change_buffer_next_empty_continuous)
next
  case (Cons p ps)
  then show ?thesis
    using assms
    by (auto simp: change_buffer_active change_buffer_next_pending_single
          change_buffer_next_pending_continuous
          intro!: vin_line.equality vin_output.equality)
qed

theorem change_buffer_rotation_witness:
  "(let starved = sample_line VIN_LINE_WR
                    (sample_output VIN_OUTPUT_SINGLE (Some (sample_buf 5)) None [] []);
        fed = sample_line VIN_LINE_ISP
                (sample_output VIN_OUTPUT_SINGLE (Some (sample_buf 5)) None [sample_buf 2] []);
        double = sample_line VIN_LINE_WR
                   (sample_output VIN_OUTPUT_CONTINUOUS (Some (sample_buf 5)) (Some (sample_buf 6))
                      [] [])
    in state (line_output (vin_change_buffer starved)) = VIN_OUTPUT_STOPPING \<and>
       last_buffer (line_output (vin_change_buffer starved)) = Some (sample_buf 5) \<and>
       ready_bufs (line_output (vin_change_buffer starved)) = [] \<and>
       sink (vin_change_buffer starved) = [] \<and>
       state (line_output (vin_change_buffer fed)) = VIN_OUTPUT_SINGLE \<and>
       buf (line_output (vin_change_buffer fed)) 0 = Some (sample_buf 2) \<and>
       ready_bufs (line_output (vin_change_buffer fed)) = [sample_buf 5] \<and>
       sink (vin_change_buffer fed) = [ISP_SET_YUV_ADDR 8192 9216] \<and>
       state (line_output (vin_change_buffer double)) = VIN_OUTPUT_SINGLE \<and>
       active_buf (line_output (vin_change_buffer double)) = 1 \<and>
       buf (line_output (vin_change_buffer double)) 0 = None \<and>
       ready_bufs (line_output (vin_change_buffer double)) = [sample_buf 5])"
proof -
  let ?s = "sample_line VIN_LINE_WR
              (sample_output VIN_OUTPUT_SINGLE (Some (sample_buf 5)) None [] [])"
  let ?f = "sample_line VIN_LINE_ISP
              (sample_output VIN_OUTPUT_SINGLE (Some (sample_buf 5)) None [sample_buf 2] [])"
  let ?d = "sample_line VIN_LINE_WR
              (sample_output VIN_OUTPUT_CONTINUOUS (Some (sample_buf 5)) (Some (sample_buf 6))
                 [] [])"
  have hs: "state (line_output ?s) = VIN_OUTPUT_SINGLE \<or> state (line_output ?s) = VIN_OUTPUT_CONTINUOUS"
    "buf (line_output ?s) (active_buf (line_output ?s)) = Some (sample_buf 5)"
    by (simp_all add: sample_line_def sample_output_def)
  have hf: "state (line_output ?f) = VIN_OUTPUT_SINGLE \<or> state (line_output ?f) = VIN_OUTPUT_CONTINUOUS"
    "buf (line_output ?f) (active_buf (line_output ?f)) = Some (sample_buf 5)"
    by (simp_all add: sample_line_def sample_output_def)
  have hd: "state (line_output ?d) = VIN_OUTPUT_SINGLE \<or> state (line_output ?d) = VIN_OUTPUT_CONTINUOUS"
    "buf (line_output ?d) (active_buf (line_output ?d)) = Some (sample_buf 5)"
    by (simp_all add: sample_line_def sample_output_def)
  show ?thesis
    using change_buffer_rotation [OF hs] change_buffer_rotation [OF hf]
      change_buffer_rotation [OF hd]
    by (simp add: Let_def sample_line_def sample_output_def sink_writes_for_def sample_buf_def
          lnot_def)
qed

text \<open>
  C5. In state \<open>OFF\<close>, \<open>STOPPING\<close>, \<open>RESERVED\<close> or \<open>IDLE\<close> the rotation handler
  changes nothing. When neither the active slot nor the other slot holds a buffer it
  changes nothing either. When the active slot is empty and the other slot holds \<open>r\<close>,
  the handler rotates the other slot: that slot receives the head of the pending queue
  (or becomes empty), and \<open>r\<close> is appended to the ready queue, or frozen as the last
  buffer when the state becomes \<open>STOPPING\<close>.
\<close>

theorem change_buffer_guards:
  "(state (line_output line) = VIN_OUTPUT_OFF \<or> state (line_output line) = VIN_OUTPUT_STOPPING \<or>
    state (line_output line) = VIN_OUTPUT_RESERVED \<or> state (line_output line) = VIN_OUTPUT_IDLE
      \<longrightarrow> vin_change_buffer line = line) \<and>
   (buf (line_output line) (active_buf (line_output line)) = None \<and>
    buf (line_output line) (lnot (active_buf (line_output line))) = None
      \<longrightarrow> vin_change_buffer line = line) \<and>
   ((state (line_output line) = VIN_OUTPUT_SINGLE \<or> state (line_output line) = VIN_OUTPUT_CONTINUOUS) \<and>
    buf (line_output line) (active_buf (line_output line)) = None \<and>
    buf (line_output line) (lnot (active_buf (line_output line))) = Some r
      \<longrightarrow> (let line' = vin_change_buffer line;
               other = lnot (active_buf (line_output line)) in
           buf (line_output line') other =
             (case pending_bufs (line_output line) of [] \<Rightarrow> None | p # ps \<Rightarrow> Some p) \<and>
           buf (line_output line') (active_buf (line_output line)) = None \<and>
           pending_bufs (line_output line') = drop 1 (pending_bufs (line_output line)) \<and>
           vb2_done line' = vb2_done line \<and>
           (if state (line_output line') = VIN_OUTPUT_STOPPING
            then last_buffer (line_output line') = Some r \<and>
                 ready_bufs (line_output line') = ready_bufs (line_output line) \<and>
                 sink line' = sink line
            else last_buffer (line_output line') = last_buffer (line_output line) \<and>
                 ready_bufs (line_output line') = ready_bufs (line_output line) @ [r] \<and>
                 sink line' = sink line @ sink_writes_for (line_id line)
                   (case pending_bufs (line_output line) of [] \<Rightarrow> r | p # ps \<Rightarrow> p))))"
proof (intro conjI impI)
  assume "state (line_output line) = VIN_OUTPUT_OFF \<or> state (line_output line) = VIN_OUTPUT_STOPPING \<or>
    state (line_output line) = VIN_OUTPUT_RESERVED \<or> state (line_output line) = VIN_OUTPUT_IDLE"
  then show "vin_change_buffer line = line"
    by (auto simp: vin_change_buffer_def)
next
  assume "buf (line_output line) (active_buf (line_output line)) = None \<and>
    buf (line_output line) (lnot (active_buf (line_output line))) = None"
  then show "vin_change_buffer line = line"
    by (simp add: vin_change_buffer_def)
next
  assume a: "(state (line_output line) = VIN_OUTPUT_SINGLE \<or> state (line_output line) = VIN_OUTPUT_CONTINUOUS) \<and>
    buf (line_output line) (active_buf (line_output line)) = None \<and>
    buf (line_output line) (lnot (active_buf (line_output line))) = Some r"
  then have eq: "vin_change_buffer line =
                 vin_change_buffer_next line (lnot (active_buf (line_output line))) r"
    by (simp add: change_buffer_failover)
  show "let line' = vin_change_buffer line;
               other = lnot (active_buf (line_output line)) in
           buf (line_output line') other =
             (case pending_bufs (line_output line) of [] \<Rightarrow> None | p # ps \<Rightarrow> Some p) \<and>
           buf (line_output line') (active_buf (line_output line)) = None \<and>
           pending_bufs (line_output line') = drop 1 (pending_bufs (line_output line)) \<and>
           vb2_done line' = vb2_done line \<and>
           (if state (line_output line') = VIN_OUTPUT_STOPPING
            then last_buffer (line_output line') = Some r \<and>
                 ready_bufs (line_output line') = ready_bufs (line_output line) \<and>
                 sink line' = sink line
            else last_buffer (line_output line') = last_buffer (line_output line) \<and>
                 ready_bufs (line_output line') = ready_bufs (line_output line) @ [r] \<and>
                 sink line' = sink line @ sink_writes_for (line_id line)
                   (case pending_bufs (line_output line) of [] \<Rightarrow> r | p # ps \<Rightarrow> p))"
  proof (cases "pending_bufs (line_output line)")
    case Nil
    with a show ?thesis
      unfolding eq Let_def
      by (auto simp: change_buffer_next_empty_single change_buffer_next_empty_continuous)
  next
    case (Cons p ps)
    with a show ?thesis
      unfolding eq Let_def
      by (auto simp: change_buffer_next_pending_single change_buffer_next_pending_continuous)
  qed
qed

theorem change_buffer_guards_witness:
  "(let idle = sample_line VIN_LINE_WR (sample_output VIN_OUTPUT_IDLE None None [sample_buf 2] []);
        empty = sample_line VIN_LINE_WR (sample_output VIN_OUTPUT_SINGLE None None [sample_buf 2] []);
        other = sample_line VIN_LINE_WR
                  (sample_output VIN_OUTPUT_SINGLE None (Some (sample_buf 1)) [sample_buf 2] [])
    in vin_change_buffer idle = idle \<and>
       vin_change_buffer empty = empty \<and>
       buf (line_output (vin_change_buffer other)) 1 = Some (sample_buf 2) \<and>
       buf (line_output (vin_change_buffer other)) 0 = None \<and>
       ready_bufs (line_output (vin_change_buffer other)) = [sample_buf 1] \<and>
       pending_bufs (line_output (vin_change_buffer other)) = [] \<and>
       sink (vin_change_buffer other) = [WR_SET_PING_ADDR 8192, WR_SET_PONG_ADDR 8192])"
proof -
  let ?i = "sample_line VIN_LINE_WR (sample_output VIN_OUTPUT_IDLE None None [sample_buf 2] [])"
  let ?e = "sample_line VIN_LINE_WR (sample_output VIN_OUTPUT_SINGLE None None [sample_buf 2] [])"
  let ?o = "sample_line VIN_LINE_WR
              (sample_output VIN_OUTPUT_SINGLE None (Some (sample_buf 1)) [sample_buf 2] [])"
  have hi: "state (line_output ?i) = VIN_OUTPUT_IDLE"
    by (simp add: sample_line_def sample_output_def)
  have he: "buf (line_output ?e) (active_buf (line_output ?e)) = None \<and>
            buf (line_output ?e) (lnot (active_buf (line_output ?e))) = None"
    by (simp add: sample_line_def sample_output_def lnot_def)
  have ho: "(state (line_output ?o) = VIN_OUTPUT_SINGLE \<or> state (line_output ?o) = VIN_OUTPUT_CONTINUOUS) \<and>
            buf (line_output ?o) (active_buf (line_output ?o)) = None \<and>
            buf (line_output ?o) (lnot (active_buf (line_output ?o))) = Some (sample_buf 1)"
    by (simp add: sample_line_def sample_output_def lnot_def)
  have st: "state (line_output (vin_change_buffer ?o)) \<noteq> VIN_OUTPUT_STOPPING"
    by (simp add: sample_line_def sample_output_def lnot_def vin_change_buffer_def
          vin_change_buffer_next_def vin_buf_get_pending_def vin_buf_update_on_next_def
          vin_buf_add_ready_def)
  show ?thesis
    using change_buffer_guards [of ?i] hi change_buffer_guards [of ?e] he
      change_buffer_guards [of ?o "sample_buf 1"] ho st
    by (simp add: Let_def)
       (simp add: sample_line_def sample_output_def sink_writes_for_def sample_buf_def lnot_def)
qed

subsection \<open>Completion handler\<close>

text \<open>
  C3. In state \<open>OFF\<close> or \<open>RESERVED\<close> the completion handler changes nothing. In every
  other state it empties the ready queue and returns its descriptors front to back, each
  as \<^verbatim>\<open>VB2_BUF_STATE_DONE\<close>, each with the one timestamp \<open>ts\<close> taken at the entry
  of the handler, the \<open>i\<close>-th with the sequence number \<open>sequence + i\<close>; the counter of
  the line advances by the number of descriptors returned. The counter is an
  \<^verbatim>\<open>unsigned int\<close>: the additions are those of 32-bit words.
\<close>

theorem buffer_done_drains_ready:
  "(state (line_output line) = VIN_OUTPUT_OFF \<or> state (line_output line) = VIN_OUTPUT_RESERVED
      \<longrightarrow> vin_buffer_done ts line = line) \<and>
   (state (line_output line) \<noteq> VIN_OUTPUT_OFF \<and> state (line_output line) \<noteq> VIN_OUTPUT_RESERVED
      \<longrightarrow> vin_buffer_done ts line =
          line\<lparr>line_output := (line_output line)\<lparr>
                 ready_bufs := [],
                 sequence := sequence (line_output line) +
                             of_nat (length (ready_bufs (line_output line)))\<rparr>,
               vb2_done := vb2_done line @
                 map (\<lambda>i. ((ready_bufs (line_output line) ! i)\<lparr>
                              vb_timestamp := ts,
                              vb_sequence := sequence (line_output line) + of_nat i\<rparr>,
                            VB2_BUF_STATE_DONE))
                     [0..<length (ready_bufs (line_output line))]\<rparr>)"
proof -
  have "done_stamped ts seq bs = (\<lambda>i. ((bs ! i)\<lparr>vb_timestamp := ts, vb_sequence := seq + of_nat i\<rparr>,
                            VB2_BUF_STATE_DONE))" for seq bs
    by (rule ext) (simp add: done_stamped_def)
  then show ?thesis
    by (simp add: vin_buffer_done_def buffer_done_loop_eq)
qed

theorem buffer_done_drains_ready_witness:
  "(let off = sample_line VIN_LINE_WR
                (sample_output VIN_OUTPUT_OFF None None [] [sample_buf 1, sample_buf 2]);
        on = sample_line VIN_LINE_WR
               (sample_output VIN_OUTPUT_SINGLE (Some (sample_buf 3)) None []
                  [sample_buf 1, sample_buf 2])
    in vin_buffer_done 1000 off = off \<and>
       ready_bufs (line_output (vin_buffer_done 1000 on)) = [] \<and>
       sequence (line_output (vin_buffer_done 1000 on)) = 9 \<and>
       vb2_done (vin_buffer_done 1000 on) =
         [((sample_buf 1)\<lparr>vb_timestamp := 1000, vb_sequence := 7\<rparr>, VB2_BUF_STATE_DONE),
          ((sample_buf 2)\<lparr>vb_timestamp := 1000, vb_sequence := 8\<rparr>, VB2_BUF_STATE_DONE)])"
proof -
  let ?off = "sample_line VIN_LINE_WR
                (sample_output VIN_OUTPUT_OFF None None [] [sample_buf 1, sample_buf 2])"
  let ?on = "sample_line VIN_LINE_WR
               (sample_output VIN_OUTPUT_SINGLE (Some (sample_buf 3)) None []
                  [sample_buf 1, sample_buf 2])"
  have h1: "state (line_output ?off) = VIN_OUTPUT_OFF"
    by (simp add: sample_line_def sample_output_def)
  have h2: "state (line_output ?on) \<noteq> VIN_OUTPUT_OFF \<and> state (line_output ?on) \<noteq> VIN_OUTPUT_RESERVED"
    by (simp add: sample_line_def sample_output_def)
  have u: "[0..<2] = [0, Suc 0]" by (simp add: upt_rec)
  show ?thesis
    using buffer_done_drains_ready [of ?off 1000] h1 buffer_done_drains_ready [of ?on 1000] h2
    by (simp add: Let_def) (simp add: sample_line_def sample_output_def u)
qed

subsection \<open>Queueing a buffer\<close>

text \<open>
  C6. In state \<open>STOPPING\<close>, \<open>vin_queue_buffer\<close> puts the frozen last buffer, when there
  is one, back into the active slot and clears it, sets the state to \<open>SINGLE\<close> and
  appends the new buffer to the pending queue; no slot receives the new buffer and
  nothing is written to the sink.
\<close>

theorem queue_buffer_stopping:
  assumes "state (line_output line) = VIN_OUTPUT_STOPPING"
  shows "vin_queue_buffer line b =
         line\<lparr>line_output := (line_output line)\<lparr>
           buf := (case last_buffer (line_output line) of
                     Some lb \<Rightarrow> (buf (line_output line))(active_buf (line_output line) := Some lb)
                   | None \<Rightarrow> buf (line_output line)),
           last_buffer := None,
           state := VIN_OUTPUT_SINGLE,
           pending_bufs := pending_bufs (line_output line) @ [b]\<rparr>\<rparr>"
  using assms
  by (auto simp: vin_queue_buffer_def vin_buf_update_on_new_def vin_buf_add_pending_def Let_def
           split: option.splits)

theorem queue_buffer_stopping_witness:
  "(let l = (sample_line VIN_LINE_ISP (sample_output VIN_OUTPUT_STOPPING None None [] []))
             \<lparr>line_output := (sample_output VIN_OUTPUT_STOPPING None None [] [])
                \<lparr>last_buffer := Some (sample_buf 1)\<rparr>\<rparr>;
        l' = vin_queue_buffer l (sample_buf 2)
    in state (line_output l) = VIN_OUTPUT_STOPPING \<and>
       state (line_output l') = VIN_OUTPUT_SINGLE \<and>
       buf (line_output l') 0 = Some (sample_buf 1) \<and>
       last_buffer (line_output l') = None \<and>
       pending_bufs (line_output l') = [sample_buf 2] \<and>
       sink l' = [])"
proof -
  let ?l = "(sample_line VIN_LINE_ISP (sample_output VIN_OUTPUT_STOPPING None None [] []))
             \<lparr>line_output := (sample_output VIN_OUTPUT_STOPPING None None [] [])
                \<lparr>last_buffer := Some (sample_buf 1)\<rparr>\<rparr>"
  have h: "state (line_output ?l) = VIN_OUTPUT_STOPPING"
    by (simp add: sample_line_def sample_output_def)
  show ?thesis
    using queue_buffer_stopping [OF h, of "sample_buf 2"]
    by (simp add: sample_line_def sample_output_def Let_def)
qed

text \<open>
  C10. In state \<open>OFF\<close> or \<open>RESERVED\<close>, \<open>vin_queue_buffer\<close> appends the buffer to the
  pending queue and changes nothing else: not the state, the slots, the last buffer or
  the sink.
\<close>

theorem queue_buffer_off_reserved:
  assumes "state (line_output line) = VIN_OUTPUT_OFF \<or> state (line_output line) = VIN_OUTPUT_RESERVED"
  shows "vin_queue_buffer line b =
         line\<lparr>line_output := (line_output line)\<lparr>
           pending_bufs := pending_bufs (line_output line) @ [b]\<rparr>\<rparr>"
  using assms
  by (auto simp: vin_queue_buffer_def vin_buf_update_on_new_def vin_buf_add_pending_def)

theorem queue_buffer_off_reserved_witness:
  "vin_queue_buffer (sample_line VIN_LINE_WR (sample_output VIN_OUTPUT_OFF None None [sample_buf 1] []))
     (sample_buf 2) =
   sample_line VIN_LINE_WR (sample_output VIN_OUTPUT_OFF None None [sample_buf 1, sample_buf 2] [])"
proof -
  let ?l = "sample_line VIN_LINE_WR (sample_output VIN_OUTPUT_OFF None None [sample_buf 1] [])"
  have h: "state (line_output ?l) = VIN_OUTPUT_OFF \<or> state (line_output ?l) = VIN_OUTPUT_RESERVED"
    by (simp add: sample_line_def sample_output_def)
  show ?thesis
    using queue_buffer_off_reserved [OF h, of "sample_buf 2"]
    by (simp add: sample_line_def sample_output_def)
qed

subsection \<open>Enable and disable\<close>

text \<open>
  C8. On a line in state \<open>OFF\<close> with empty queues and empty slots,
  \<open>vin_enable_output\<close> leads to \<open>IDLE\<close> and \<open>vin_disable_output\<close> back to \<open>OFF\<close>, and
  neither writes to the sink; the pair only resets the sequence counter and the active
  index.
\<close>

theorem enable_disable_round_trip:
  assumes "state (line_output line) = VIN_OUTPUT_OFF"
    and "pending_bufs (line_output line) = []"
    and "ready_bufs (line_output line) = []"
    and "buf (line_output line) 0 = None"
    and "buf (line_output line) 1 = None"
  shows "state (line_output (vin_enable_output line)) = VIN_OUTPUT_IDLE \<and>
         sink (vin_enable_output line) = sink line \<and>
         state (line_output (vin_disable_output (vin_enable_output line))) = VIN_OUTPUT_OFF \<and>
         sink (vin_disable_output (vin_enable_output line)) = sink line \<and>
         vin_disable_output (vin_enable_output line) =
           line\<lparr>line_output := (line_output line)\<lparr>sequence := 0, active_buf := 0\<rparr>\<rparr>"
proof -
  have en: "vin_enable_output line =
            line\<lparr>line_output := (line_output line)\<lparr>
              state := VIN_OUTPUT_IDLE, sequence := 0, active_buf := 0\<rparr>\<rparr>"
    using assms
    by (auto intro!: vin_line.equality vin_output.equality
          simp: vin_enable_output_def vin_buf_get_pending_def vin_output_init_addrs_def Let_def)
  have out: "(line_output line)\<lparr>state := VIN_OUTPUT_OFF\<rparr> = line_output line"
    using assms(1) by (intro vin_output.equality) simp_all
  have "vin_disable_output (vin_enable_output line) =
        line\<lparr>line_output := (line_output line)\<lparr>state := VIN_OUTPUT_OFF\<rparr>
               \<lparr>sequence := 0, active_buf := 0\<rparr>\<rparr>"
    by (simp add: en vin_disable_output_def)
  then have rt: "vin_disable_output (vin_enable_output line) =
        line\<lparr>line_output := (line_output line)\<lparr>sequence := 0, active_buf := 0\<rparr>\<rparr>"
    by (simp only: out)
  show ?thesis
    using assms(1) by (simp add: rt) (simp add: en)
qed

theorem enable_disable_round_trip_witness:
  "(let l = sample_line VIN_LINE_WR (sample_output VIN_OUTPUT_OFF None None [] [])
    in state (line_output l) = VIN_OUTPUT_OFF \<and>
       state (line_output (vin_enable_output l)) = VIN_OUTPUT_IDLE \<and>
       state (line_output (vin_disable_output (vin_enable_output l))) = VIN_OUTPUT_OFF \<and>
       sink (vin_enable_output l) = [] \<and>
       sink (vin_disable_output (vin_enable_output l)) = [])"
proof -
  let ?l = "sample_line VIN_LINE_WR (sample_output VIN_OUTPUT_OFF None None [] [])"
  have h: "state (line_output ?l) = VIN_OUTPUT_OFF" "pending_bufs (line_output ?l) = []"
    "ready_bufs (line_output ?l) = []" "buf (line_output ?l) 0 = None"
    "buf (line_output ?l) 1 = None"
    by (simp_all add: sample_line_def sample_output_def)
  show ?thesis
    using enable_disable_round_trip [OF h] h(1)
    by (simp add: Let_def) (simp add: sample_line_def)
qed

subsection \<open>Only one slot is ever used\<close>

lemma single_slot_init: "single_slot (line_output (vin_init_outputs line))"
  by (simp add: single_slot_def vin_init_outputs_def)

lemma single_slot_enable:
  "single_slot (line_output line) \<Longrightarrow> single_slot (line_output (vin_enable_output line))"
  by (cases "line_id line")
     (auto simp: single_slot_def vin_enable_output_def vin_buf_get_pending_def
        vin_output_init_addrs_def Let_def split: list.splits option.splits)

lemma single_slot_disable:
  "single_slot (line_output line) \<Longrightarrow> single_slot (line_output (vin_disable_output line))"
  by (simp add: single_slot_def vin_disable_output_def)

lemma single_slot_queue:
  "single_slot (line_output line) \<Longrightarrow> single_slot (line_output (vin_queue_buffer line b))"
  by (cases "state (line_output line)"; cases "line_id line")
     (auto simp: single_slot_def vin_queue_buffer_def vin_buf_update_on_new_def
        vin_buf_add_pending_def vin_output_init_addrs_def Let_def split: option.splits)

lemma single_slot_done:
  "single_slot (line_output line) \<Longrightarrow> single_slot (line_output (vin_buffer_done ts line))"
  by (simp add: single_slot_def vin_buffer_done_def buffer_done_loop_eq)

lemma single_slot_flush:
  "single_slot (line_output line) \<Longrightarrow> single_slot (line_output (vin_flush_buffers line st))"
  by (simp add: single_slot_def flush_buffers_eq)

lemma single_slot_change:
  assumes "single_slot (line_output line)"
  shows "single_slot (line_output (vin_change_buffer line))"
proof (cases "state (line_output line) = VIN_OUTPUT_SINGLE")
  case False
  with assms have "vin_change_buffer line = line"
    by (cases "state (line_output line)") (auto simp: vin_change_buffer_def single_slot_def)
  with assms show ?thesis by simp
next
  case True
  show ?thesis
  proof (cases "buf (line_output line) 0")
    case None
    with assms have "vin_change_buffer line = line"
      by (simp add: vin_change_buffer_def single_slot_def lnot_def)
    with assms show ?thesis by simp
  next
    case (Some r)
    with assms True have eq: "vin_change_buffer line = vin_change_buffer_next line 0 r"
      by (simp add: change_buffer_active single_slot_def)
    show ?thesis
      using assms True unfolding eq
      by (cases "pending_bufs (line_output line)")
         (simp_all add: change_buffer_next_empty_single change_buffer_next_pending_single
            single_slot_def)
  qed
qed

lemma single_slot_step:
  "single_slot (line_output line) \<Longrightarrow> single_slot (line_output (engine_step line e))"
  by (cases e)
     (simp_all add: single_slot_enable single_slot_disable single_slot_queue single_slot_done
        single_slot_change single_slot_flush)

lemma single_slot_run:
  "single_slot (line_output line) \<Longrightarrow> single_slot (line_output (engine_run line es))"
  by (induction es arbitrary: line) (simp_all add: single_slot_step)

text \<open>
  C9. After \<open>vin_init_outputs\<close>, whatever sequence of enable, disable, queue,
  completion, rotation and flush events follows, the output state is never
  \<open>CONTINUOUS\<close>, the active index is 0 and slot 1 is empty: no code path assigns
  \<open>CONTINUOUS\<close>, and without it the index is never toggled and slot 1 never filled.
\<close>

theorem second_slot_unreachable:
  "state (line_output (engine_run (vin_init_outputs line) es)) \<noteq> VIN_OUTPUT_CONTINUOUS \<and>
   active_buf (line_output (engine_run (vin_init_outputs line) es)) = 0 \<and>
   buf (line_output (engine_run (vin_init_outputs line) es)) 1 = None"
  using single_slot_run [OF single_slot_init, of line es]
  by (simp add: single_slot_def)

subsection \<open>Buffers reach the hardware in arrival order\<close>







subsection \<open>No descriptor is held twice\<close>












subsection \<open>Reference counters\<close>

text \<open>
  Power-off with both power counts at zero: each count stays at zero, each underflow is
  reported, and no clock or power call is made.
\<close>

lemma set_power_off_at_zero:
  assumes "power_count (vin_lines dev lid) = 0" and "dev_power_count dev = 0"
  shows "vin_set_power lk lid False dev =
         dev\<lparr>events := events dev @
                [DEV_ERR ''line power off on power_count = 0''] @
                (if lk = LINK_ERROR then []
                 else [DEV_ERR ''vin_dev power off on power_count=0''])\<rparr>"
  using assms by (simp add: vin_set_power_def Let_def)

text \<open>
  The two power counts are tested separately. Power-off on a line whose own count is
  zero, while the device count is one, reports the line and leaves its count at zero,
  and then still takes the device count to zero and disables the clocks.
\<close>

lemma set_power_off_line_zero_dev_one:
  assumes "power_count (vin_lines dev lid) = 0" and "dev_power_count dev = 1"
    and "lk \<noteq> LINK_ERROR"
  shows "vin_set_power lk lid False dev =
         dev\<lparr>events := events dev @
                [DEV_ERR ''line power off on power_count = 0'',
                 VIN_CLK_DISABLE lk, PM_RUNTIME_PUT_SYNC],
              dev_power_count := 0\<rparr>"
  using assms by (simp add: vin_set_power_def Let_def)

text \<open>
  Stream-off with both stream counts at zero, on any line and any valid link: both
  counts become \<open>-1\<close>.
\<close>

lemma set_stream_off_underflow:
  assumes "stream_count (vin_lines dev lid) = 0"
    and "dummy_stream_count (dummy_buffers dev (vin_line_to_dummy_module lid)) = 0"
    and "lk \<noteq> LINK_ERROR"
  shows "sint (stream_count (vin_lines (vin_set_stream lk lid False dev) lid)) = - 1 \<and>
         sint (dummy_stream_count (dummy_buffers (vin_set_stream lk lid False dev)
           (vin_line_to_dummy_module lid))) = - 1"
  using assms by (simp add: vin_set_stream_def Let_def vin_disable_output_def)

text \<open>
  C7 (the code at the failing input). Stream-off on the write line of a device whose
  stream counts are all zero: \<^verbatim>\<open>vin_set_stream\<close> has no test for zero, so the stream
  count of the line and the stream count of the dummy-buffer module both become \<open>-1\<close>,
  nothing is reported, and the dummy-buffer address is written to the hardware again.
\<close>

theorem set_stream_off_at_zero:
  "sint (stream_count (vin_lines (vin_set_stream LINK_CSI_TO_WR VIN_LINE_WR False sample_dev)
     VIN_LINE_WR)) = - 1 \<and>
   sint (dummy_stream_count (dummy_buffers
     (vin_set_stream LINK_CSI_TO_WR VIN_LINE_WR False sample_dev) STF_DUMMY_VIN)) = - 1 \<and>
   events (vin_set_stream LINK_CSI_TO_WR VIN_LINE_WR False sample_dev) =
     [VIN_SET_DUMMY_BUFFER VIN_LINE_WR STF_ISP_PAD_SINK]"
  by (simp add: vin_set_stream_def sample_dev_def sample_line_def sample_output_def Let_def
        vin_line_to_dummy_module_def vin_disable_output_def stf_vin_map_isp_pad_def)

end
